theory Spec2Isabelle
  imports Complex_Main
begin

section \<open>The order editor (OrderEdit) of the dashboard\<close>

text \<open>
  The order composition logic of the repository lives in the \<^verbatim>\<open>OrderEdit\<close> component:
  the handlers \<^verbatim>\<open>addItem\<close>, \<^verbatim>\<open>removeItem\<close>, \<^verbatim>\<open>updateItemPrice\<close>,
  \<^verbatim>\<open>updateItemQuantity\<close>, \<^verbatim>\<open>calculateTotal\<close>, \<^verbatim>\<open>handleSubmit\<close> and the two
  \<^verbatim>\<open>onChange\<close> handlers of the price and quantity inputs. Each handler reads the
  component state of the current render and stores a new one; here a handler is a function
  from the state (and what it reads of the fetched data) to the new state and the effects
  it emits.
\<close>

subsection \<open>JavaScript numbers\<close>

text \<open>
  A TypeScript \<^verbatim>\<open>number\<close> is modelled as an exact real or \<^verbatim>\<open>NaN\<close>. The rounding of
  IEEE doubles and the two infinities are outside the model.
\<close>

datatype number = Num real | NaN

fun isNaN :: "number \<Rightarrow> bool" where
  "isNaN NaN = True"
| "isNaN (Num r) = False"

text \<open>The truth value of a number in a condition: \<^verbatim>\<open>0\<close> and \<^verbatim>\<open>NaN\<close> are falsy.\<close>

fun truthy :: "number \<Rightarrow> bool" where
  "truthy NaN = False"
| "truthy (Num r) = (r \<noteq> 0)"

text \<open>\<^verbatim>\<open>a || b\<close> on numbers.\<close>

definition js_or :: "number \<Rightarrow> number \<Rightarrow> number" where
  "js_or a b = (if truthy a then a else b)"

fun js_add :: "number \<Rightarrow> number \<Rightarrow> number" where
  "js_add (Num a) (Num b) = Num (a + b)"
| "js_add a b = NaN"

fun js_mul :: "number \<Rightarrow> number \<Rightarrow> number" where
  "js_mul (Num a) (Num b) = Num (a * b)"
| "js_mul a b = NaN"

text \<open>\<^verbatim>\<open>a >= b\<close>: every comparison with \<^verbatim>\<open>NaN\<close> is false.\<close>

fun js_ge :: "number \<Rightarrow> number \<Rightarrow> bool" where
  "js_ge (Num a) (Num b) = (b \<le> a)"
| "js_ge a b = False"

fun Math_floor :: "number \<Rightarrow> number" where
  "Math_floor (Num r) = Num (of_int \<lfloor>r\<rfloor>)"
| "Math_floor NaN = NaN"

fun Math_max :: "number \<Rightarrow> number \<Rightarrow> number" where
  "Math_max (Num a) (Num b) = Num (max a b)"
| "Math_max a b = NaN"

subsection \<open>Data\<close>

text \<open>The element type of the \<^verbatim>\<open>items\<close> state (field \<^verbatim>\<open>id\<close> is \<open>item_id\<close> here).\<close>

record item =
  item_id :: string
  productId :: string
  productName :: string
  quantity :: number
  price :: number

datatype product_status = Available | Unavailable

text \<open>
  Of \<^verbatim>\<open>BaseProduct\<close>, \<^verbatim>\<open>Customer\<close> and \<^verbatim>\<open>Employee\<close> the fields the order editor's
  handlers read.
\<close>

record product =
  prod_id :: string
  prod_name :: string
  prod_price :: number
  prod_stock :: number
  prod_status :: product_status

record customer =
  cust_id :: string
  cust_name :: string

record employee =
  emp_id :: string
  emp_name :: string

datatype order_status = Pending | Processing | Completed | Cancelled

text \<open>The \<^verbatim>\<open>useState\<close> cells of the component.\<close>

record editor =
  items :: "item list"
  customerId :: string
  employeeId :: string
  status :: order_status
  isSubmitting :: bool
  hasChanges :: bool

text \<open>
  What the component reads besides its own state: the route parameter \<^verbatim>\<open>id\<close>
  (possibly undefined) and the three fetched lists, each \<^verbatim>\<open>[]\<close> until loaded.
\<close>

record env =
  routeId :: "string option"
  customers :: "customer list"
  products :: "product list"
  employees :: "employee list"

text \<open>
  The toasts of the component, by title:
  \<open>CannotRemoveItem\<close> is "Cannot remove item" (Orders must have at least one item),
  \<open>CustomerRequired\<close> "Customer required", \<open>EmployeeRequired\<close> "Employee required",
  \<open>ProductsRequired\<close> "Products required", \<open>CustomerNotFound\<close> and
  \<open>EmployeeNotFound\<close> the two "Error" toasts (Selected customer / employee not found),
  \<open>OrderUpdated\<close> "Order updated" with the id of the returned order, and
  \<open>UpdateFailed\<close> "Update failed".
\<close>

datatype toast =
  CannotRemoveItem
| CustomerRequired
| EmployeeRequired
| ProductsRequired
| CustomerNotFound
| EmployeeNotFound
| OrderUpdated string
| UpdateFailed

subsection \<open>Editing the items\<close>

text \<open>\<^verbatim>\<open>addItem\<close>; \<open>uuid\<close> is the value \<^verbatim>\<open>crypto.randomUUID()\<close> returned.\<close>

definition addItem :: "string \<Rightarrow> editor \<Rightarrow> editor" where
  "addItem uuid s =
     s\<lparr>items := items s @
          [\<lparr>item_id = uuid, productId = '''', productName = '''',
            quantity = Num 1, price = Num 0\<rparr>],
       hasChanges := True\<rparr>"

text \<open>\<^verbatim>\<open>removeItem\<close>: the new state and the toast shown, if any.\<close>

definition removeItem :: "string \<Rightarrow> editor \<Rightarrow> editor \<times> toast list" where
  "removeItem i s =
     (if length (items s) > 1
      then (s\<lparr>items := filter (\<lambda>it. item_id it \<noteq> i) (items s), hasChanges := True\<rparr>, [])
      else (s, [CannotRemoveItem]))"

text \<open>\<^verbatim>\<open>updateItemPrice\<close>: the product is looked up in the fetched list.\<close>

definition updateItemPrice :: "env \<Rightarrow> string \<Rightarrow> string \<Rightarrow> editor \<Rightarrow> editor" where
  "updateItemPrice e i pid s =
     (case find (\<lambda>p. prod_id p = pid) (products e) of
        Some p \<Rightarrow>
          s\<lparr>items := map (\<lambda>it. if item_id it = i
                                then it\<lparr>productId := prod_id p, productName := prod_name p,
                                        price := prod_price p, quantity := Num 1\<rparr>
                                else it) (items s),
            hasChanges := True\<rparr>
      | None \<Rightarrow> s)"

definition updateItemQuantity :: "string \<Rightarrow> number \<Rightarrow> editor \<Rightarrow> editor" where
  "updateItemQuantity i q s =
     (let validQuantity = Math_max (Num 1) (Math_floor q)
      in s\<lparr>items := map (\<lambda>it. if item_id it = i then it\<lparr>quantity := validQuantity\<rparr> else it)
                         (items s),
           hasChanges := True\<rparr>)"

text \<open>
  The \<^verbatim>\<open>onChange\<close> handler of the price input of row \<open>i\<close>; \<open>p\<close> is the value of
  \<^verbatim>\<open>parseFloat(e.target.value)\<close>.
\<close>

definition priceOnChange :: "string \<Rightarrow> number \<Rightarrow> editor \<Rightarrow> editor" where
  "priceOnChange i p s =
     (if \<not> isNaN p \<and> js_ge p (Num 0)
      then s\<lparr>items := map (\<lambda>it. if item_id it = i then it\<lparr>price := p\<rparr> else it) (items s),
             hasChanges := True\<rparr>
      else s)"

text \<open>
  The \<^verbatim>\<open>onChange\<close> handler of the quantity input of row \<open>i\<close>, the only caller of
  \<^verbatim>\<open>updateItemQuantity\<close>; \<open>q\<close> is the value of \<^verbatim>\<open>parseInt(e.target.value)\<close>.
\<close>

definition quantityOnChange :: "string \<Rightarrow> number \<Rightarrow> editor \<Rightarrow> editor" where
  "quantityOnChange i q s =
     (if \<not> isNaN q \<and> js_ge q (Num 1) then updateItemQuantity i q s else s)"

text \<open>
  \<^verbatim>\<open>maxQuantity\<close> of a row, \<^verbatim>\<open>selectedProduct?.stock || 0\<close>: the \<^verbatim>\<open>max\<close> attribute of
  the quantity input. No handler reads it.
\<close>

definition maxQuantity :: "env \<Rightarrow> item \<Rightarrow> number" where
  "maxQuantity e it =
     (case find (\<lambda>p. prod_id p = productId it) (products e) of
        Some p \<Rightarrow> js_or (prod_stock p) (Num 0)
      | None \<Rightarrow> Num 0)"

subsection \<open>The total\<close>

text \<open>\<^verbatim>\<open>calculateTotal\<close>: a \<^verbatim>\<open>reduce\<close> from 0 over the \<^verbatim>\<open>items\<close> state.\<close>

definition calculateTotal :: "editor \<Rightarrow> number" where
  "calculateTotal s =
     foldl (\<lambda>sum it. if productId it = '''' then sum
                      else js_add sum (js_mul (js_or (price it) (Num 0))
                                              (js_or (quantity it) (Num 1))))
           (Num 0) (items s)"


subsection \<open>Submitting\<close>

text \<open>
  The block of \<^verbatim>\<open>handleSubmit\<close> under the comment \<^verbatim>\<open>// Validate form\<close>: three checks
  in order, each showing its toast and returning; \<open>None\<close> when none of them fires.
\<close>

definition validateForm :: "editor \<Rightarrow> toast option" where
  "validateForm s =
     (if customerId s = '''' then Some CustomerRequired
      else if employeeId s = '''' then Some EmployeeRequired
      else if length (items s) = 0 \<or> list_ex (\<lambda>it. productId it = '''') (items s)
           then Some ProductsRequired
      else None)"

text \<open>The object handed to \<^verbatim>\<open>updateOrder\<close>.\<close>

record order_update =
  upd_customerId :: string
  upd_customerName :: string
  upd_employeeId :: string
  upd_employeeName :: string
  upd_items :: "item list"
  upd_total :: number
  upd_status :: order_status

text \<open>\<^verbatim>\<open>a || b\<close> on strings: the empty string is falsy.\<close>

definition str_or :: "string \<Rightarrow> string \<Rightarrow> string" where
  "str_or a b = (if a = '''' then b else a)"

text \<open>
  What \<^verbatim>\<open>handleSubmit\<close> does besides returning, in order. \<open>ShowToast\<close> is a call of
  \<^verbatim>\<open>toast\<close>, \<open>CallUpdateOrder\<close> the call of \<^verbatim>\<open>updateOrder\<close> (the only network call),
  \<open>InvalidateQueries\<close> a call of \<^verbatim>\<open>queryClient.invalidateQueries\<close> with its query key,
  \<open>Navigate\<close> the call of \<^verbatim>\<open>navigate\<close>, \<open>ConsoleError\<close> the \<^verbatim>\<open>console.error\<close>
  of the \<^verbatim>\<open>catch\<close> block.
\<close>

datatype effect =
  ShowToast toast
| SetIsSubmitting bool
| CallUpdateOrder string order_update
| InvalidateQueries "string list"
| Navigate string
| ConsoleError

text \<open>
  How the awaited \<^verbatim>\<open>updateOrder\<close> ended: it threw, or it returned \<^verbatim>\<open>null\<close>
  (\<open>Resolved None\<close>) or an order, of which only the id is read.
\<close>

datatype update_result = Threw | Resolved "string option"

fun is_CallUpdateOrder :: "effect \<Rightarrow> bool" where
  "is_CallUpdateOrder (CallUpdateOrder rid u) = True"
| "is_CallUpdateOrder e = False"

text \<open>
  \<^verbatim>\<open>handleSubmit\<close>: the state after the handler has run to its end and the effects it
  emitted, given how \<^verbatim>\<open>updateOrder\<close> ends if it is called. The "Order updated" toast
  carries the id of the returned order (the source shows its first 8 characters in upper
  case). The \<^verbatim>\<open>e.preventDefault()\<close> that opens the handler is not among the effects.
\<close>

definition handleSubmit :: "env \<Rightarrow> update_result \<Rightarrow> editor \<Rightarrow> editor \<times> effect list" where
  "handleSubmit e res s =
     (case routeId e of
        None \<Rightarrow> (s, [])
      | Some rid \<Rightarrow>
          if rid = '''' \<or> isSubmitting s then (s, [])
          else
            (case validateForm s of
               Some t \<Rightarrow> (s, [ShowToast t])
             | None \<Rightarrow>
                 (case find (\<lambda>c. cust_id c = customerId s) (customers e) of
                    None \<Rightarrow> (s, [ShowToast CustomerNotFound])
                  | Some customer \<Rightarrow>
                      (case find (\<lambda>m. emp_id m = employeeId s) (employees e) of
                         None \<Rightarrow> (s, [ShowToast EmployeeNotFound])
                       | Some employee \<Rightarrow>
                           (s\<lparr>isSubmitting := False\<rparr>,
                            [SetIsSubmitting True,
                             CallUpdateOrder rid
                               \<lparr>upd_customerId = customerId s,
                                upd_customerName = cust_name customer,
                                upd_employeeId = employeeId s,
                                upd_employeeName = emp_name employee,
                                upd_items =
                                  map (\<lambda>it. \<lparr>item_id = item_id it,
                                             productId = productId it,
                                             productName = str_or (productName it) '''',
                                             quantity = js_or (quantity it) (Num 1),
                                             price = js_or (price it) (Num 0)\<rparr>) (items s),
                                upd_total = calculateTotal s,
                                upd_status = status s\<rparr>]
                            @ (case res of
                                 Resolved (Some oid) \<Rightarrow>
                                   [InvalidateQueries [''orders''],
                                    InvalidateQueries [''order'', rid],
                                    ShowToast (OrderUpdated oid),
                                    Navigate (''/orders/'' @ rid)]
                               | Resolved None \<Rightarrow> [ConsoleError, ShowToast UpdateFailed]
                               | Threw \<Rightarrow> [ConsoleError, ShowToast UpdateFailed])
                            @ [SetIsSubmitting False])))))"

subsection \<open>Predicates and sample data\<close>

text \<open>A quantity that is an integer and at least 1.\<close>

fun pos_int :: "number \<Rightarrow> bool" where
  "pos_int (Num r) = (r = of_int \<lfloor>r\<rfloor> \<and> 1 \<le> r)"
| "pos_int NaN = False"

definition quantities_valid :: "editor \<Rightarrow> bool" where
  "quantities_valid s = list_all (\<lambda>it. pos_int (quantity it)) (items s)"

text \<open>The four conditions of a submittable form, negated: some condition is violated.\<close>

definition form_violated :: "editor \<Rightarrow> bool" where
  "form_violated s =
     (customerId s = '''' \<or> employeeId s = '''' \<or> items s = [] \<or>
      (\<exists>it \<in> set (items s). productId it = ''''))"

fun validation_toast :: "toast \<Rightarrow> bool" where
  "validation_toast CustomerRequired = True"
| "validation_toast EmployeeRequired = True"
| "validation_toast ProductsRequired = True"
| "validation_toast t = False"

definition sample_item :: "string \<Rightarrow> string \<Rightarrow> real \<Rightarrow> real \<Rightarrow> item" where
  "sample_item i pid q p =
     \<lparr>item_id = i, productId = pid, productName = pid, quantity = Num q, price = Num p\<rparr>"

definition sample_editor :: "item list \<Rightarrow> editor" where
  "sample_editor xs =
     \<lparr>items = xs, customerId = ''c1'', employeeId = ''e1'', status = Pending,
      isSubmitting = False, hasChanges = False\<rparr>"

definition sample_env :: env where
  "sample_env =
     \<lparr>routeId = Some ''o1'',
      customers = [\<lparr>cust_id = ''c1'', cust_name = ''Ann''\<rparr>],
      products =
        [\<lparr>prod_id = ''p1'', prod_name = ''Phone'', prod_price = Num 10, prod_stock = Num 5,
          prod_status = Available\<rparr>,
         \<lparr>prod_id = ''p2'', prod_name = ''Cable'', prod_price = Num 20, prod_stock = Num 1,
          prod_status = Available\<rparr>],
      employees = [\<lparr>emp_id = ''e1'', emp_name = ''Bob''\<rparr>]\<rparr>"




section \<open>Properties\<close>

subsection \<open>Quantity edit\<close>

lemma Math_max_floor_Num:
  "Math_max (Num 1) (Math_floor (Num q)) = Num (of_int (max 1 \<lfloor>q\<rfloor>))"
  by (simp add: max_def)

text \<open>
  C1. For every real requested quantity \<open>q\<close>, \<^verbatim>\<open>updateItemQuantity\<close> keeps the number
  of rows, and every row carrying the edited id gets the quantity \<open>max 1 \<lfloor>q\<rfloor>\<close>, an
  integer that is at least 1, whatever \<open>q\<close> is (negative, zero, fractional) and whether
  or not the row has a product selected (no condition on \<open>productId\<close>).
\<close>

theorem updateItemQuantity_max_floor:
  "length (items (updateItemQuantity i (Num q) s)) = length (items s) \<and>
   (\<forall>k < length (items s). item_id (items s ! k) = i \<longrightarrow>
      quantity (items (updateItemQuantity i (Num q) s) ! k) = Num (of_int (max 1 \<lfloor>q\<rfloor>)) \<and>
      1 \<le> max 1 \<lfloor>q\<rfloor>)"
  unfolding updateItemQuantity_def Let_def Math_max_floor_Num by simp

theorem updateItemQuantity_max_floor_witness:
  "item_id (items (sample_editor [sample_item ''a'' '''' 3 0]) ! 0) = ''a'' \<and>
   quantity (items (updateItemQuantity ''a'' (Num (- 5 / 2))
                      (sample_editor [sample_item ''a'' '''' 3 0])) ! 0) = Num 1"
proof -
  have k: "0 < length (items (sample_editor [sample_item ''a'' '''' 3 0]))"
    by (simp add: sample_editor_def)
  have h: "item_id (items (sample_editor [sample_item ''a'' '''' 3 0]) ! 0) = ''a''"
    by (simp add: sample_editor_def sample_item_def)
  from updateItemQuantity_max_floor
         [of "''a''" "- 5 / 2" "sample_editor [sample_item ''a'' '''' 3 0]"] k h
  have "quantity (items (updateItemQuantity ''a'' (Num (- 5 / 2))
                      (sample_editor [sample_item ''a'' '''' 3 0])) ! 0)
        = Num (of_int (max 1 \<lfloor>- 5 / 2 :: real\<rfloor>))"
    by blast
  then show ?thesis using h by simp
qed

subsection \<open>The total\<close>












subsection \<open>Validation and removal\<close>

lemma validateForm_violated: "(validateForm s \<noteq> None) = form_violated s"
  by (auto simp: validateForm_def form_violated_def list_ex_iff)

lemma validateForm_toast: "validateForm s = Some t \<Longrightarrow> validation_toast t"
  by (auto simp: validateForm_def split: if_splits)

text \<open>
  C3. The validation of \<^verbatim>\<open>handleSubmit\<close> reports an error exactly when one of the four
  conditions is violated: no customer selected, no employee selected, no rows, or a row
  with no product selected. It passes exactly when all four hold. Seen from the handler,
  once it is past its first guard (a route id, no submission in flight): it shows one of
  the three validation toasts and nothing else exactly when a condition is violated.
\<close>

theorem validateForm_iff:
  "(validateForm s \<noteq> None) = form_violated s \<and>
   (routeId e = Some rid \<and> rid \<noteq> '''' \<and> \<not> isSubmitting s \<longrightarrow>
      (\<exists>t. validation_toast t \<and> handleSubmit e res s = (s, [ShowToast t])) = form_violated s)"
proof -
  have a: "(validateForm s \<noteq> None) = form_violated s"
    by (rule validateForm_violated)
  have b: "(\<exists>t. validation_toast t \<and> handleSubmit e res s = (s, [ShowToast t])) = form_violated s"
    if h: "routeId e = Some rid" "rid \<noteq> ''''" "\<not> isSubmitting s"
  proof (cases "validateForm s")
    case None
    then have nv: "\<not> form_violated s" using a by simp
    have "\<not> (\<exists>t. validation_toast t \<and> handleSubmit e res s = (s, [ShowToast t]))"
      using h None
      by (auto simp: handleSubmit_def split: option.splits update_result.splits)
    with nv show ?thesis by simp
  next
    case (Some t)
    then have v: "form_violated s" using a by simp
    have "handleSubmit e res s = (s, [ShowToast t])"
      using h Some by (simp add: handleSubmit_def)
    with validateForm_toast [OF Some] v show ?thesis by blast
  qed
  from a b show ?thesis by blast
qed

theorem validateForm_iff_witness:
  "form_violated (sample_editor [sample_item ''a'' '''' 1 0]) \<and>
   \<not> form_violated (sample_editor [sample_item ''a'' ''p1'' 1 10]) \<and>
   handleSubmit sample_env Threw (sample_editor [sample_item ''a'' '''' 1 0])
     = (sample_editor [sample_item ''a'' '''' 1 0], [ShowToast ProductsRequired]) \<and>
   validateForm (sample_editor [sample_item ''a'' ''p1'' 1 10]) = None"
proof -
  have v: "form_violated (sample_editor [sample_item ''a'' '''' 1 0])"
    by (simp add: form_violated_def sample_editor_def sample_item_def)
  have nv: "\<not> form_violated (sample_editor [sample_item ''a'' ''p1'' 1 10])"
    by (simp add: form_violated_def sample_editor_def sample_item_def)
  have pre: "routeId sample_env = Some ''o1'' \<and> ''o1'' \<noteq> '''' \<and>
             \<not> isSubmitting (sample_editor [sample_item ''a'' '''' 1 0])"
    by (simp add: sample_env_def sample_editor_def)
  from validateForm_iff [of "sample_editor [sample_item ''a'' '''' 1 0]" sample_env "''o1''" Threw]
       pre v
  obtain t where t: "validation_toast t"
     "handleSubmit sample_env Threw (sample_editor [sample_item ''a'' '''' 1 0])
        = (sample_editor [sample_item ''a'' '''' 1 0], [ShowToast t])"
    by blast
  have "handleSubmit sample_env Threw (sample_editor [sample_item ''a'' '''' 1 0])
     = (sample_editor [sample_item ''a'' '''' 1 0], [ShowToast ProductsRequired])"
    by (simp add: handleSubmit_def validateForm_def sample_env_def sample_editor_def sample_item_def)
  moreover from validateForm_iff [of "sample_editor [sample_item ''a'' ''p1'' 1 10]" sample_env "''o1''" Threw] nv
  have "validateForm (sample_editor [sample_item ''a'' ''p1'' 1 10]) = None"
    by blast
  ultimately show ?thesis using v nv by blast
qed




subsection \<open>Product selection, price edit, submission, adding rows\<close>

text \<open>
  C5. When the chosen product is the one the catalog lookup of \<^verbatim>\<open>updateItemPrice\<close>
  yields, every row carrying the edited id gets the product's id, name and price, and its
  quantity becomes 1 whatever it was before; the number of rows and the row's own id stay.
\<close>

theorem updateItemPrice_selects:
  "find (\<lambda>p. prod_id p = pid) (products e) = Some p \<Longrightarrow>
   length (items (updateItemPrice e i pid s)) = length (items s) \<and>
   (\<forall>k < length (items s). item_id (items s ! k) = i \<longrightarrow>
      productId (items (updateItemPrice e i pid s) ! k) = prod_id p \<and>
      productName (items (updateItemPrice e i pid s) ! k) = prod_name p \<and>
      price (items (updateItemPrice e i pid s) ! k) = prod_price p \<and>
      quantity (items (updateItemPrice e i pid s) ! k) = Num 1 \<and>
      item_id (items (updateItemPrice e i pid s) ! k) = i) \<and>
   prod_id p = pid"
proof -
  assume f: "find (\<lambda>p. prod_id p = pid) (products e) = Some p"
  then have "prod_id p = pid"
    by (auto simp: find_Some_iff)
  with f show ?thesis
    by (simp add: updateItemPrice_def)
qed

theorem updateItemPrice_selects_witness:
  "quantity (items (sample_editor [sample_item ''a'' ''p1'' 4 10]) ! 0) = Num 4 \<and>
   items (updateItemPrice sample_env ''a'' ''p2'' (sample_editor [sample_item ''a'' ''p1'' 4 10])) ! 0
     = \<lparr>item_id = ''a'', productId = ''p2'', productName = ''Cable'',
        quantity = Num 1, price = Num 20\<rparr>"
proof -
  have f: "find (\<lambda>p. prod_id p = ''p2'') (products sample_env)
     = Some \<lparr>prod_id = ''p2'', prod_name = ''Cable'', prod_price = Num 20, prod_stock = Num 1,
          prod_status = Available\<rparr>"
    by (simp add: sample_env_def)
  have k: "0 < length (items (sample_editor [sample_item ''a'' ''p1'' 4 10]))"
    and h: "item_id (items (sample_editor [sample_item ''a'' ''p1'' 4 10]) ! 0) = ''a''"
    and q: "quantity (items (sample_editor [sample_item ''a'' ''p1'' 4 10]) ! 0) = Num 4"
    by (simp_all add: sample_editor_def sample_item_def)
  from updateItemPrice_selects [OF f, of "''a''" "sample_editor [sample_item ''a'' ''p1'' 4 10]"] k h
  have "productId (items (updateItemPrice sample_env ''a'' ''p2'' (sample_editor [sample_item ''a'' ''p1'' 4 10])) ! 0) = ''p2'' \<and>
      productName (items (updateItemPrice sample_env ''a'' ''p2'' (sample_editor [sample_item ''a'' ''p1'' 4 10])) ! 0) = ''Cable'' \<and>
      price (items (updateItemPrice sample_env ''a'' ''p2'' (sample_editor [sample_item ''a'' ''p1'' 4 10])) ! 0) = Num 20 \<and>
      quantity (items (updateItemPrice sample_env ''a'' ''p2'' (sample_editor [sample_item ''a'' ''p1'' 4 10])) ! 0) = Num 1 \<and>
      item_id (items (updateItemPrice sample_env ''a'' ''p2'' (sample_editor [sample_item ''a'' ''p1'' 4 10])) ! 0) = ''a''"
    by simp
  with q show ?thesis by simp
qed

text \<open>
  C6. From an order with no rows: \<^verbatim>\<open>addItem\<close> twice (two different ids), the first row
  set to product p1 (price 10, stock 5) and to quantity 3, the second row set to product p2
  (price 20, stock 1), whose quantity input then has the maximum 1, and to quantity 1. The
  total is \<open>10 * 3 + 20 * 1 = 50\<close>.
\<close>

theorem order_scenario_total:
  assumes "items s = []" and "u1 \<noteq> u2"
    and "find (\<lambda>p. prod_id p = ''p1'') (products e) = Some p1"
    and "prod_price p1 = Num 10" and "prod_stock p1 = Num 5"
    and "find (\<lambda>p. prod_id p = ''p2'') (products e) = Some p2"
    and "prod_price p2 = Num 20" and "prod_stock p2 = Num 1"
  shows "maxQuantity e
           (items (updateItemPrice e u2 ''p2''
                     (updateItemQuantity u1 (Num 3)
                       (updateItemPrice e u1 ''p1''
                         (addItem u2 (addItem u1 s))))) ! 1) = Num 1 \<and>
         calculateTotal
           (updateItemQuantity u2 (Num 1)
             (updateItemPrice e u2 ''p2''
               (updateItemQuantity u1 (Num 3)
                 (updateItemPrice e u1 ''p1''
                   (addItem u2 (addItem u1 s)))))) = Num 50"
proof -
  from assms(3) have i1: "prod_id p1 = ''p1''" by (auto simp: find_Some_iff)
  from assms(6) have i2: "prod_id p2 = ''p2''" by (auto simp: find_Some_iff)
  show ?thesis
    using assms i1 i2
    by (simp add: addItem_def updateItemPrice_def updateItemQuantity_def calculateTotal_def
                  maxQuantity_def js_or_def)
qed

theorem order_scenario_total_witness:
  "maxQuantity sample_env
           (items (updateItemPrice sample_env ''i2'' ''p2''
                     (updateItemQuantity ''i1'' (Num 3)
                       (updateItemPrice sample_env ''i1'' ''p1''
                         (addItem ''i2'' (addItem ''i1'' (sample_editor [])))))) ! 1) = Num 1 \<and>
   calculateTotal
           (updateItemQuantity ''i2'' (Num 1)
             (updateItemPrice sample_env ''i2'' ''p2''
               (updateItemQuantity ''i1'' (Num 3)
                 (updateItemPrice sample_env ''i1'' ''p1''
                   (addItem ''i2'' (addItem ''i1'' (sample_editor []))))))) = Num 50"
proof -
  have a: "items (sample_editor []) = []" by (simp add: sample_editor_def)
  have b: "''i1'' \<noteq> ''i2''" by simp
  have f1: "find (\<lambda>p. prod_id p = ''p1'') (products sample_env)
     = Some \<lparr>prod_id = ''p1'', prod_name = ''Phone'', prod_price = Num 10, prod_stock = Num 5,
          prod_status = Available\<rparr>"
    by (simp add: sample_env_def)
  have f2: "find (\<lambda>p. prod_id p = ''p2'') (products sample_env)
     = Some \<lparr>prod_id = ''p2'', prod_name = ''Cable'', prod_price = Num 20, prod_stock = Num 1,
          prod_status = Available\<rparr>"
    by (simp add: sample_env_def)
  show ?thesis
    by (rule order_scenario_total [OF a b f1 _ _ f2]) simp_all
qed

text \<open>
  C7. The price input's handler stores a parsed price \<open>r\<close> on the row with the edited
  id whenever \<open>0 \<le> r\<close>, with no upper bound, and changes nothing else of the rows; for
  a negative price or \<^verbatim>\<open>NaN\<close> the state stays as it was.
\<close>

theorem priceOnChange_guard:
  "(0 \<le> r \<longrightarrow>
      length (items (priceOnChange i (Num r) s)) = length (items s) \<and>
      (\<forall>k < length (items s).
         items (priceOnChange i (Num r) s) ! k =
           (if item_id (items s ! k) = i then (items s ! k)\<lparr>price := Num r\<rparr> else items s ! k))) \<and>
   (r < 0 \<longrightarrow> priceOnChange i (Num r) s = s) \<and>
   priceOnChange i NaN s = s"
  by (simp add: priceOnChange_def)

theorem priceOnChange_guard_witness:
  "price (items (priceOnChange ''a'' (Num 1000000) (sample_editor [sample_item ''a'' ''p1'' 2 10])) ! 0)
      = Num 1000000 \<and>
   priceOnChange ''a'' (Num (- 1)) (sample_editor [sample_item ''a'' ''p1'' 2 10])
      = sample_editor [sample_item ''a'' ''p1'' 2 10]"
proof -
  have k: "0 < length (items (sample_editor [sample_item ''a'' ''p1'' 2 10]))"
    and h: "item_id (items (sample_editor [sample_item ''a'' ''p1'' 2 10]) ! 0) = ''a''"
    by (simp_all add: sample_editor_def sample_item_def)
  have p: "(0::real) \<le> 1000000" and n: "(- 1::real) < 0" by simp_all
  from priceOnChange_guard [of 1000000 "''a''" "sample_editor [sample_item ''a'' ''p1'' 2 10]"] p k
  have "items (priceOnChange ''a'' (Num 1000000) (sample_editor [sample_item ''a'' ''p1'' 2 10])) ! 0 =
           (if item_id (items (sample_editor [sample_item ''a'' ''p1'' 2 10]) ! 0) = ''a''
            then (items (sample_editor [sample_item ''a'' ''p1'' 2 10]) ! 0)\<lparr>price := Num 1000000\<rparr>
            else items (sample_editor [sample_item ''a'' ''p1'' 2 10]) ! 0)"
    by blast
  with h have a: "price (items (priceOnChange ''a'' (Num 1000000) (sample_editor [sample_item ''a'' ''p1'' 2 10])) ! 0)
      = Num 1000000"
    by simp
  from priceOnChange_guard [of "- 1" "''a''" "sample_editor [sample_item ''a'' ''p1'' 2 10]"] n
  have b: "priceOnChange ''a'' (Num (- 1)) (sample_editor [sample_item ''a'' ''p1'' 2 10])
      = sample_editor [sample_item ''a'' ''p1'' 2 10]"
    by blast
  from a b show ?thesis by blast
qed

lemma handleSubmit_rejects:
  "validateForm s = Some t \<Longrightarrow> handleSubmit e res s = (s, []) \<or> handleSubmit e res s = (s, [ShowToast t])"
  by (simp add: handleSubmit_def split: option.splits)

text \<open>
  C8. When one of the four conditions of the form is violated, \<^verbatim>\<open>handleSubmit\<close> leaves
  the state (rows, customer, employee, status and the rest) as it was and never calls
  \<^verbatim>\<open>updateOrder\<close>, whatever the route id, the fetched lists and the submission flag are.
\<close>

theorem handleSubmit_invalid_no_call:
  "form_violated s \<Longrightarrow>
   fst (handleSubmit e res s) = s \<and>
   \<not> list_ex is_CallUpdateOrder (snd (handleSubmit e res s))"
proof -
  assume "form_violated s"
  then obtain t where "validateForm s = Some t"
    using validateForm_violated [of s] by auto
  from handleSubmit_rejects [OF this, of e res] show ?thesis
    by auto
qed

theorem handleSubmit_invalid_no_call_witness:
  "form_violated (sample_editor []) \<and>
   fst (handleSubmit sample_env (Resolved (Some ''o1'')) (sample_editor [])) = sample_editor [] \<and>
   \<not> list_ex is_CallUpdateOrder (snd (handleSubmit sample_env (Resolved (Some ''o1'')) (sample_editor [])))"
proof -
  have v: "form_violated (sample_editor [])"
    by (simp add: form_violated_def sample_editor_def)
  from handleSubmit_invalid_no_call [OF v, of sample_env "Resolved (Some ''o1'')"] v
  show ?thesis by blast
qed



lemma pos_int_max_floor: "pos_int (Num (of_int (max 1 \<lfloor>q\<rfloor>)))"
  by simp

lemma quantities_valid_updateItemQuantity:
  "quantities_valid s \<Longrightarrow> quantities_valid (updateItemQuantity i (Num q) s)"
  unfolding updateItemQuantity_def Let_def Math_max_floor_Num quantities_valid_def
  by (auto simp: list_all_iff pos_int_max_floor simp del: pos_int.simps)

text \<open>
  C10. If every row has an integer quantity of at least 1, so it has after \<^verbatim>\<open>addItem\<close>,
  \<^verbatim>\<open>removeItem\<close>, \<^verbatim>\<open>updateItemPrice\<close>, \<^verbatim>\<open>updateItemQuantity\<close> with a requested
  quantity that is a number, the quantity input's handler with any parsed value (it lets no
  \<^verbatim>\<open>NaN\<close> through), and the price input's handler.
\<close>

theorem quantities_valid_preserved:
  assumes "quantities_valid s"
  shows "quantities_valid (addItem u s) \<and>
         quantities_valid (fst (removeItem i s)) \<and>
         quantities_valid (updateItemPrice e i pid s) \<and>
         (\<not> isNaN q \<longrightarrow> quantities_valid (updateItemQuantity i q s)) \<and>
         quantities_valid (quantityOnChange i q s) \<and>
         quantities_valid (priceOnChange i p s)"
proof -
  have a: "quantities_valid (addItem u s)"
    using assms by (simp add: quantities_valid_def addItem_def)
  have b: "quantities_valid (fst (removeItem i s))"
    using assms by (simp add: quantities_valid_def removeItem_def list_all_iff)
  have c: "quantities_valid (updateItemPrice e i pid s)"
    using assms
    by (auto simp: quantities_valid_def updateItemPrice_def list_all_iff split: option.splits)
  have d: "\<not> isNaN q \<longrightarrow> quantities_valid (updateItemQuantity i q s)"
    using assms by (cases q) (simp_all add: quantities_valid_updateItemQuantity)
  have f: "quantities_valid (quantityOnChange i q s)"
    using assms d by (simp add: quantityOnChange_def)
  have g: "quantities_valid (priceOnChange i p s)"
    using assms by (auto simp: quantities_valid_def priceOnChange_def list_all_iff)
  from a b c d f g show ?thesis by blast
qed

theorem quantities_valid_preserved_witness:
  "quantities_valid (sample_editor [sample_item ''a'' ''p1'' 2 10, sample_item ''b'' '''' 1 0]) \<and>
   quantities_valid (updateItemQuantity ''a'' (Num (7 / 2))
      (sample_editor [sample_item ''a'' ''p1'' 2 10, sample_item ''b'' '''' 1 0])) \<and>
   quantities_valid (fst (removeItem ''a''
      (sample_editor [sample_item ''a'' ''p1'' 2 10, sample_item ''b'' '''' 1 0])))"
proof -
  have v: "quantities_valid (sample_editor [sample_item ''a'' ''p1'' 2 10, sample_item ''b'' '''' 1 0])"
    by (simp add: quantities_valid_def sample_editor_def sample_item_def)
  have n: "\<not> isNaN (Num (7 / 2))" by simp
  from quantities_valid_preserved [OF v, of _ "''a''" _ _ "Num (7 / 2)"] v n
  show ?thesis by blast
qed


end
